theory Spec2Isabelle
  imports Complex_Main "HOL-Library.Multiset"
begin

section \<open>Price bars and data frames\<close>

text \<open>
  Both calculators receive \<^verbatim>\<open>data_tuple\<close>, a tuple of rows
  \<^verbatim>\<open>(date, open, high, low, close, volume)\<close>. A row is modelled as a 6-tuple. The
  timestamp is the already parsed point in time (seconds on a linear time axis); the
  prices are finite floating-point numbers, idealised as exact reals. Missing values
  (pandas' NaN) only arise inside the calculators and are modelled where they arise.
\<close>

type_synonym bar = "int \<times> real \<times> real \<times> real \<times> real \<times> int"

definition bar_date :: "bar \<Rightarrow> int" where
  "bar_date b = (case b of (d, op, h, l, c, v) \<Rightarrow> d)"

definition bar_open :: "bar \<Rightarrow> real" where
  "bar_open b = (case b of (d, op, h, l, c, v) \<Rightarrow> op)"

definition bar_high :: "bar \<Rightarrow> real" where
  "bar_high b = (case b of (d, op, h, l, c, v) \<Rightarrow> h)"

definition bar_low :: "bar \<Rightarrow> real" where
  "bar_low b = (case b of (d, op, h, l, c, v) \<Rightarrow> l)"

definition bar_close :: "bar \<Rightarrow> real" where
  "bar_close b = (case b of (d, op, h, l, c, v) \<Rightarrow> c)"

definition bar_volume :: "bar \<Rightarrow> int" where
  "bar_volume b = (case b of (d, op, h, l, c, v) \<Rightarrow> v)"

text \<open>
  A value of a derived floating-point column. Division of a finite number by zero gives
  an infinity or NaN in the source's arithmetic, so the columns computed by division
  carry these values explicitly. Signed zeros and rounding are not modelled.
\<close>

datatype fval = NaN | PInf | NInf | Fin real

text \<open>
  The exceptions the calculators can raise: the \<^verbatim>\<open>ValueError\<close> with the text
  "Insufficient data", the \<^verbatim>\<open>ValueError\<close> with the text "Error calculating SMAs"
  (the enhanced calculator's wrapper around the rolling mean), a plain
  \<^verbatim>\<open>ValueError\<close> of the library, and \<^verbatim>\<open>IndexError\<close>.
\<close>

datatype error = InsufficientData | SmaError | ValueError | IndexError

text \<open>
  The data frame the calculators return, column by column. \<open>date\<close> is the index.
  The enhanced calculator also adds the columns volatility, momentum and drawdown; they
  are computed from the columns below, change none of them and cannot raise, and are
  left out.
\<close>

record frame =
  date :: "int list"
  open_price :: "real list"
  high :: "real list"
  low :: "real list"
  close :: "real list"
  volume :: "int list"
  sma20 :: "real option list"
  sma50 :: "real option list"
  sma200 :: "real option list"
  signal :: "int list"
  position :: "int option list"
  returns :: "fval list"
  strategy_returns :: "fval list"

section \<open>Column operations\<close>

text \<open>
  \<^verbatim>\<open>series.rolling(window=w, min_periods=w).mean()\<close>: the mean of the last \<open>w\<close>
  values, NaN (\<open>None\<close>) while fewer than \<open>w\<close> values are available. A negative
  window is refused with a \<^verbatim>\<open>ValueError\<close>; a window of zero gives NaN everywhere.
  \<^verbatim>\<open>rolling(window=w)\<close> with an integer window takes \<open>min_periods = w\<close> by default,
  so both calculators use this function.
\<close>

definition window_mean :: "nat \<Rightarrow> real list \<Rightarrow> nat \<Rightarrow> real option" where
  "window_mean w xs i =
     (if 0 < w \<and> w \<le> i + 1
      then Some (sum_list (take w (drop (i + 1 - w) xs)) / real w)
      else None)"

definition rolling_mean :: "int \<Rightarrow> real list \<Rightarrow> error + real option list" where
  "rolling_mean w xs =
     (if w < 0 then Inl ValueError
      else Inr (map (window_mean (nat w) xs) [0..<length xs]))"

text \<open>Comparison of two values that may be NaN: false as soon as one of them is.\<close>

fun gt :: "real option \<Rightarrow> real option \<Rightarrow> bool" where
  "gt (Some a) (Some b) = (a > b)"
| "gt _ _ = False"

fun lt :: "real option \<Rightarrow> real option \<Rightarrow> bool" where
  "lt (Some a) (Some b) = (a < b)"
| "lt _ _ = False"

definition series_gt :: "real option list \<Rightarrow> real option list \<Rightarrow> bool list" where
  "series_gt xs ys = map2 gt xs ys"

definition series_lt :: "real option list \<Rightarrow> real option list \<Rightarrow> bool list" where
  "series_lt xs ys = map2 lt xs ys"

definition series_and :: "bool list \<Rightarrow> bool list \<Rightarrow> bool list" where
  "series_and xs ys = map2 (\<and>) xs ys"

text \<open>\<^verbatim>\<open>df.loc[mask, col] = v\<close>: the rows selected by the mask take the value.\<close>

definition loc_assign :: "bool list \<Rightarrow> 'a \<Rightarrow> 'a list \<Rightarrow> 'a list" where
  "loc_assign msk v col = map2 (\<lambda>m x. if m then v else x) msk col"

text \<open>\<^verbatim>\<open>series.shift(1)\<close>: every value moves one row down, the first row is NaN.\<close>

definition shift1 :: "'a list \<Rightarrow> 'a option list" where
  "shift1 xs = take (length xs) (None # map Some xs)"

text \<open>\<^verbatim>\<open>series.diff()\<close> on the integer signal column.\<close>

definition diff :: "int list \<Rightarrow> int option list" where
  "diff xs = map2 (\<lambda>x p. case p of None \<Rightarrow> None | Some y \<Rightarrow> Some (x - y)) xs (shift1 xs)"

text \<open>Floating-point division of two finite numbers, and subtracting one.\<close>

definition fdiv :: "real \<Rightarrow> real \<Rightarrow> fval" where
  "fdiv a b =
     (if b \<noteq> 0 then Fin (a / b)
      else if a = 0 then NaN
      else if a > 0 then PInf else NInf)"

fun fsub1 :: "fval \<Rightarrow> fval" where
  "fsub1 (Fin x) = Fin (x - 1)"
| "fsub1 v = v"

text \<open>\<^verbatim>\<open>series.pct_change()\<close>: \<open>close[t] / close[t-1] - 1\<close>, NaN on the first row.\<close>

definition pct_change :: "real list \<Rightarrow> fval list" where
  "pct_change xs =
     map2 (\<lambda>x p. case p of None \<Rightarrow> NaN | Some y \<Rightarrow> fsub1 (fdiv x y)) xs (shift1 xs)"

text \<open>
  The product of a shifted signal (an integer, or NaN on the first row) and a return:
  NaN if either is NaN, and zero times an infinity is NaN.
\<close>

fun fmul :: "int option \<Rightarrow> fval \<Rightarrow> fval" where
  "fmul None r = NaN"
| "fmul (Some s) NaN = NaN"
| "fmul (Some s) (Fin x) = Fin (real_of_int s * x)"
| "fmul (Some s) PInf = (if s = 0 then NaN else if s > 0 then PInf else NInf)"
| "fmul (Some s) NInf = (if s = 0 then NaN else if s > 0 then NInf else PInf)"

text \<open>\<^verbatim>\<open>fillna(0)\<close>.\<close>

fun fillna0 :: "fval \<Rightarrow> fval" where
  "fillna0 NaN = Fin 0"
| "fillna0 v = v"

section \<open>Signal generation\<close>

text \<open>
  The statements both calculators share, from the rolling means to the strategy
  returns: the three SMA columns, the uptrend and downtrend masks, the signal column
  set to 0, then to 1 under the uptrend mask, then to -1 under the downtrend mask,
  and the position, returns and strategy returns columns.
\<close>

definition uptrend :: "real list \<Rightarrow> real option list \<Rightarrow> real option list \<Rightarrow> real option list \<Rightarrow> bool list" where
  "uptrend cl s20 s50 s200 =
     series_and (series_and (series_gt (map Some cl) s20) (series_gt s20 s50)) (series_gt s50 s200)"

definition downtrend :: "real list \<Rightarrow> real option list \<Rightarrow> real option list \<Rightarrow> real option list \<Rightarrow> bool list" where
  "downtrend cl s20 s50 s200 =
     series_and (series_and (series_lt (map Some cl) s20) (series_lt s20 s50)) (series_lt s50 s200)"

definition signal_col :: "real list \<Rightarrow> real option list \<Rightarrow> real option list \<Rightarrow> real option list \<Rightarrow> int list" where
  "signal_col cl s20 s50 s200 =
     loc_assign (downtrend cl s20 s50 s200) (- 1)
       (loc_assign (uptrend cl s20 s50 s200) 1 (replicate (length cl) 0))"

definition add_signals :: "bar list \<Rightarrow> real option list \<Rightarrow> real option list \<Rightarrow> real option list \<Rightarrow> frame" where
  "add_signals df s20 s50 s200 =
     (let cl = map bar_close df;
          sig = signal_col cl s20 s50 s200;
          rets = pct_change cl
      in \<lparr> date = map bar_date df,
           open_price = map bar_open df,
           high = map bar_high df,
           low = map bar_low df,
           close = cl,
           volume = map bar_volume df,
           sma20 = s20, sma50 = s50, sma200 = s200,
           signal = sig,
           position = diff sig,
           returns = rets,
           strategy_returns = map fillna0 (map2 fmul (shift1 sig) rets) \<rparr>)"

section \<open>The optimized calculator\<close>

text \<open>
  \<^verbatim>\<open>calculate_triple_sma_optimized\<close> (the same text in two notebooks): no length
  check, no filtering, no sorting. \<^verbatim>\<open>df['date'].iloc[0]\<close> raises
  \<^verbatim>\<open>IndexError\<close> on an empty frame.
\<close>

definition calculate_triple_sma_optimized :: "bar list \<Rightarrow> int \<Rightarrow> int \<Rightarrow> int \<Rightarrow> error + frame" where
  "calculate_triple_sma_optimized data sma20_period sma50_period sma200_period =
     (if data = [] then Inl IndexError
      else case rolling_mean sma20_period (map bar_close data) of
        Inl e \<Rightarrow> Inl e
      | Inr s20 \<Rightarrow>
     (case rolling_mean sma50_period (map bar_close data) of
        Inl e \<Rightarrow> Inl e
      | Inr s50 \<Rightarrow>
     (case rolling_mean sma200_period (map bar_close data) of
        Inl e \<Rightarrow> Inl e
      | Inr s200 \<Rightarrow> Inr (add_signals data s20 s50 s200))))"

section \<open>The enhanced calculator\<close>

text \<open>The three row filters of the data validation, in the source's order.\<close>

definition positive_prices :: "bar \<Rightarrow> bool" where
  "positive_prices b \<longleftrightarrow> bar_open b > 0 \<and> bar_high b > 0 \<and> bar_low b > 0 \<and> bar_close b > 0"

definition high_above_low :: "bar \<Rightarrow> bool" where
  "high_above_low b \<longleftrightarrow> bar_high b \<ge> bar_low b"

definition close_in_range :: "bar \<Rightarrow> bool" where
  "close_in_range b \<longleftrightarrow> bar_close b \<le> bar_high b \<and> bar_close b \<ge> bar_low b"

definition remove_invalid :: "bar list \<Rightarrow> bar list" where
  "remove_invalid data = filter close_in_range (filter high_above_low (filter positive_prices data))"

text \<open>
  \<^verbatim>\<open>df.set_index('date').sort_index()\<close>. The sort is modelled as a stable sort on the
  timestamp; the order the library gives to rows with equal timestamps is not used by
  any theorem below.
\<close>

definition sort_index :: "bar list \<Rightarrow> bar list" where
  "sort_index df = sort_key bar_date df"

text \<open>
  The rolling means inside \<^verbatim>\<open>try ... except Exception\<close>: every error becomes the
  \<^verbatim>\<open>ValueError\<close> "Error calculating SMAs".
\<close>

definition try_rolling_mean :: "int \<Rightarrow> real list \<Rightarrow> error + real option list" where
  "try_rolling_mean w xs = (case rolling_mean w xs of Inl e \<Rightarrow> Inl SmaError | Inr s \<Rightarrow> Inr s)"

text \<open>
  \<^verbatim>\<open>df.dropna(subset=['sma20', 'sma50', 'sma200'])\<close>, as the list of the row numbers
  that remain.
\<close>

definition valid_sma_data :: "frame \<Rightarrow> nat list" where
  "valid_sma_data df =
     filter (\<lambda>i. sma20 df ! i \<noteq> None \<and> sma50 df ! i \<noteq> None \<and> sma200 df ! i \<noteq> None)
       [0..<length (close df)]"

text \<open>
  \<^verbatim>\<open>calculate_triple_sma_enhanced\<close>. The length check is made on the raw input. The
  printed messages (rows removed, gaps of more than five days, quality score) do not
  change the frame and are left out, except that printing the valid data range reads
  \<^verbatim>\<open>valid_sma_data.index[0]\<close>, which raises \<^verbatim>\<open>IndexError\<close> when no row has all
  three averages.
\<close>

definition calculate_triple_sma_enhanced :: "bar list \<Rightarrow> int \<Rightarrow> int \<Rightarrow> int \<Rightarrow> error + frame" where
  "calculate_triple_sma_enhanced data sma20_period sma50_period sma200_period =
     (if int (length data) < sma200_period then Inl InsufficientData
      else let df = remove_invalid data in
        if df = [] then Inl IndexError
        else let df = sort_index df in
        case try_rolling_mean sma20_period (map bar_close df) of
          Inl e \<Rightarrow> Inl e
        | Inr s20 \<Rightarrow>
       (case try_rolling_mean sma50_period (map bar_close df) of
          Inl e \<Rightarrow> Inl e
        | Inr s50 \<Rightarrow>
       (case try_rolling_mean sma200_period (map bar_close df) of
          Inl e \<Rightarrow> Inl e
        | Inr s200 \<Rightarrow>
            (let df = add_signals df s20 s50 s200 in
             if valid_sma_data df = [] then Inl IndexError else Inr df))))"

section \<open>Memoization\<close>







section \<open>The connection manager\<close>

text \<open>
  \<^verbatim>\<open>ConnectionManager.test_network_connection\<close>. The socket library is the
  environment: \<^verbatim>\<open>socket.create_connection\<close> and \<^verbatim>\<open>sock.close\<close> each either
  succeed or raise an exception, the clock gives the connection time and the current
  time. An exception is a \<^verbatim>\<open>socket.gaierror\<close>, a \<^verbatim>\<open>socket.timeout\<close> or any other
  \<^verbatim>\<open>Exception\<close>, the first and the last with their text \<^verbatim>\<open>str(e)\<close>.
\<close>

datatype exn = Gaierror string | SocketTimeout | OtherException string

record environment =
  create_connection :: "exn option"
  sock_close :: "exn option"
  connection_time :: real
  now :: int

record connection_attempt =
  timestamp :: int
  host :: string
  port :: nat
  status :: string
  latency :: "real option"
  error_text :: "string option"

text \<open>Decimal text of a number, as an f-string prints an integer.\<close>

definition digit_char :: "nat \<Rightarrow> char" where
  "digit_char d = ''0123456789'' ! d"

fun str_nat :: "nat \<Rightarrow> string" where
  "str_nat n = (if n < 10 then [digit_char n] else str_nat (n div 10) @ [digit_char (n mod 10)])"

declare str_nat.simps [simp del]

text \<open>
  The handlers, in the source's order. \<open>fmt3\<close> is the \<^verbatim>\<open>:.3f\<close> formatting of the
  connection time.
\<close>

definition handle_exn :: "connection_attempt list \<Rightarrow> environment \<Rightarrow> string \<Rightarrow> nat \<Rightarrow> nat \<Rightarrow> exn \<Rightarrow> (bool \<times> string) \<times> connection_attempt list" where
  "handle_exn connection_history env h p timeout e =
     (case e of
        Gaierror s \<Rightarrow>
          ((False, ''DNS resolution failed: '' @ s),
           connection_history @ [\<lparr> timestamp = now env, host = h, port = p,
             status = ''dns_error'', latency = None, error_text = Some s \<rparr>])
      | SocketTimeout \<Rightarrow>
          (let error_msg = ''Connection timeout after '' @ str_nat timeout @ ''s'' in
           ((False, error_msg),
            connection_history @ [\<lparr> timestamp = now env, host = h, port = p,
              status = ''timeout'', latency = None, error_text = Some error_msg \<rparr>]))
      | OtherException s \<Rightarrow>
          ((False, ''Connection failed: '' @ s),
           connection_history @ [\<lparr> timestamp = now env, host = h, port = p,
             status = ''error'', latency = None, error_text = Some s \<rparr>]))"

definition test_network_connection :: "(real \<Rightarrow> string) \<Rightarrow> connection_attempt list \<Rightarrow> environment \<Rightarrow> string \<Rightarrow> nat \<Rightarrow> nat \<Rightarrow> (bool \<times> string) \<times> connection_attempt list" where
  "test_network_connection fmt3 connection_history env h p timeout =
     (case create_connection env of
        Some e \<Rightarrow> handle_exn connection_history env h p timeout e
      | None \<Rightarrow>
          (case sock_close env of
             Some e \<Rightarrow> handle_exn connection_history env h p timeout e
           | None \<Rightarrow>
               ((True, ''Connected in '' @ fmt3 (connection_time env) @ ''s''),
                connection_history @ [\<lparr> timestamp = now env, host = h, port = p,
                  status = ''success'', latency = Some (connection_time env),
                  error_text = None \<rparr>])))"

section \<open>Example inputs\<close>

text \<open>
  Five valid bars with rising closing prices, used with the window sizes 2, 3 and 4,
  and the frame the calculators return for them.
\<close>

definition rising :: "bar list" where
  "rising = [(1, 1, 1, 1, 1, 100), (2, 2, 2, 2, 2, 100), (3, 3, 3, 3, 3, 100),
             (4, 4, 4, 4, 4, 100), (5, 5, 5, 5, 5, 100)]"

definition rising_frame :: frame where
  "rising_frame =
     add_signals rising
       [None, Some (3 / 2), Some (5 / 2), Some (7 / 2), Some (9 / 2)]
       [None, None, Some 2, Some 3, Some 4]
       [None, None, None, Some (5 / 2), Some (7 / 2)]"


text \<open>The same five bars followed by a bar with non-positive prices.\<close>

definition rising_with_invalid :: "bar list" where
  "rising_with_invalid = rising @ [(6, 0, 0, 0, 0, 100)]"

section \<open>Properties of the column operations\<close>

lemma length_rolling_mean: "rolling_mean w xs = Inr s \<Longrightarrow> length s = length xs"
  by (auto simp: rolling_mean_def split: if_splits)

lemma nth_rolling_mean:
  "rolling_mean w xs = Inr s \<Longrightarrow> i < length xs \<Longrightarrow> s ! i = window_mean (nat w) xs i"
  by (auto simp: rolling_mean_def split: if_splits)

lemma rolling_mean_Inr: "rolling_mean w xs = Inr s \<Longrightarrow> 0 \<le> w"
  by (auto simp: rolling_mean_def split: if_splits)

lemma try_rolling_mean_Inr: "try_rolling_mean w xs = Inr s \<longleftrightarrow> rolling_mean w xs = Inr s"
  by (simp add: try_rolling_mean_def split: sum.splits)

lemma length_uptrend:
  "length s20 = length cl \<Longrightarrow> length s50 = length cl \<Longrightarrow> length s200 = length cl \<Longrightarrow>
   length (uptrend cl s20 s50 s200) = length cl"
  by (simp add: uptrend_def series_and_def series_gt_def)

lemma length_downtrend:
  "length s20 = length cl \<Longrightarrow> length s50 = length cl \<Longrightarrow> length s200 = length cl \<Longrightarrow>
   length (downtrend cl s20 s50 s200) = length cl"
  by (simp add: downtrend_def series_and_def series_lt_def)

lemma nth_uptrend:
  "length s20 = length cl \<Longrightarrow> length s50 = length cl \<Longrightarrow> length s200 = length cl \<Longrightarrow>
   i < length cl \<Longrightarrow>
   uptrend cl s20 s50 s200 ! i \<longleftrightarrow>
     gt (Some (cl ! i)) (s20 ! i) \<and> gt (s20 ! i) (s50 ! i) \<and> gt (s50 ! i) (s200 ! i)"
  by (simp add: uptrend_def series_and_def series_gt_def)

lemma nth_downtrend:
  "length s20 = length cl \<Longrightarrow> length s50 = length cl \<Longrightarrow> length s200 = length cl \<Longrightarrow>
   i < length cl \<Longrightarrow>
   downtrend cl s20 s50 s200 ! i \<longleftrightarrow>
     lt (Some (cl ! i)) (s20 ! i) \<and> lt (s20 ! i) (s50 ! i) \<and> lt (s50 ! i) (s200 ! i)"
  by (simp add: downtrend_def series_and_def series_lt_def)

lemma length_loc_assign: "length msk = length col \<Longrightarrow> length (loc_assign msk v col) = length col"
  by (simp add: loc_assign_def)

lemma nth_loc_assign:
  "length msk = length col \<Longrightarrow> i < length col \<Longrightarrow>
   loc_assign msk v col ! i = (if msk ! i then v else col ! i)"
  by (simp add: loc_assign_def)

lemma length_shift1: "length (shift1 xs) = length xs"
  by (simp add: shift1_def)

lemma nth_shift1:
  "i < length xs \<Longrightarrow> shift1 xs ! i = (if i = 0 then None else Some (xs ! (i - 1)))"
  by (cases i) (simp_all add: shift1_def)

lemma length_pct_change: "length (pct_change xs) = length xs"
  by (simp add: pct_change_def length_shift1)

lemma nth_pct_change:
  "i < length xs \<Longrightarrow>
   pct_change xs ! i = (if i = 0 then NaN else fsub1 (fdiv (xs ! i) (xs ! (i - 1))))"
  by (simp add: pct_change_def length_shift1 nth_shift1)

lemma length_signal_col:
  "length s20 = length cl \<Longrightarrow> length s50 = length cl \<Longrightarrow> length s200 = length cl \<Longrightarrow>
   length (signal_col cl s20 s50 s200) = length cl"
  by (simp add: signal_col_def length_loc_assign length_uptrend length_downtrend)

lemma nth_signal_col:
  "length s20 = length cl \<Longrightarrow> length s50 = length cl \<Longrightarrow> length s200 = length cl \<Longrightarrow>
   i < length cl \<Longrightarrow>
   signal_col cl s20 s50 s200 ! i =
     (if lt (Some (cl ! i)) (s20 ! i) \<and> lt (s20 ! i) (s50 ! i) \<and> lt (s50 ! i) (s200 ! i) then - 1
      else if gt (Some (cl ! i)) (s20 ! i) \<and> gt (s20 ! i) (s50 ! i) \<and> gt (s50 ! i) (s200 ! i) then 1
      else 0)"
  by (simp add: signal_col_def length_loc_assign nth_loc_assign length_uptrend length_downtrend
      nth_uptrend nth_downtrend)

lemma gt_iff: "gt x y \<longleftrightarrow> (\<exists>a b. x = Some a \<and> y = Some b \<and> a > b)"
  by (cases x; cases y) auto

lemma lt_iff: "lt x y \<longleftrightarrow> (\<exists>a b. x = Some a \<and> y = Some b \<and> a < b)"
  by (cases x; cases y) auto

lemma add_signals_simps:
  "date (add_signals df s20 s50 s200) = map bar_date df"
  "close (add_signals df s20 s50 s200) = map bar_close df"
  "sma20 (add_signals df s20 s50 s200) = s20"
  "sma50 (add_signals df s20 s50 s200) = s50"
  "sma200 (add_signals df s20 s50 s200) = s200"
  "signal (add_signals df s20 s50 s200) = signal_col (map bar_close df) s20 s50 s200"
  "returns (add_signals df s20 s50 s200) = pct_change (map bar_close df)"
  "strategy_returns (add_signals df s20 s50 s200) =
     map fillna0 (map2 fmul (shift1 (signal_col (map bar_close df) s20 s50 s200))
       (pct_change (map bar_close df)))"
  by (simp_all add: add_signals_def Let_def)

section \<open>What the calculators return\<close>

text \<open>
  A frame returned by either calculator is \<open>add_signals\<close> applied to the rows the
  calculator works on and to the three rolling means of their closing prices.
\<close>

lemma optimized_Inr:
  assumes "calculate_triple_sma_optimized data p20 p50 p200 = Inr df"
  shows "\<exists>s20 s50 s200.
           data \<noteq> [] \<and>
           rolling_mean p20 (map bar_close data) = Inr s20 \<and>
           rolling_mean p50 (map bar_close data) = Inr s50 \<and>
           rolling_mean p200 (map bar_close data) = Inr s200 \<and>
           df = add_signals data s20 s50 s200"
  using assms
  by (auto simp: calculate_triple_sma_optimized_def split: if_splits sum.splits)

lemma enhanced_Inr:
  assumes "calculate_triple_sma_enhanced data p20 p50 p200 = Inr df"
  shows "\<exists>s20 s50 s200.
           p200 \<le> int (length data) \<and>
           remove_invalid data \<noteq> [] \<and>
           rolling_mean p20 (map bar_close (sort_index (remove_invalid data))) = Inr s20 \<and>
           rolling_mean p50 (map bar_close (sort_index (remove_invalid data))) = Inr s50 \<and>
           rolling_mean p200 (map bar_close (sort_index (remove_invalid data))) = Inr s200 \<and>
           df = add_signals (sort_index (remove_invalid data)) s20 s50 s200 \<and>
           valid_sma_data df \<noteq> []"
  using assms
  by (auto simp: calculate_triple_sma_enhanced_def Let_def try_rolling_mean_Inr
      split: if_splits sum.splits)

lemma enhanced_eval:
  assumes "p200 \<le> int (length data)"
    and "sort_index (remove_invalid data) = rows" and "remove_invalid data \<noteq> []"
    and "rolling_mean p20 (map bar_close rows) = Inr s20"
    and "rolling_mean p50 (map bar_close rows) = Inr s50"
    and "rolling_mean p200 (map bar_close rows) = Inr s200"
    and "valid_sma_data (add_signals rows s20 s50 s200) \<noteq> []"
  shows "calculate_triple_sma_enhanced data p20 p50 p200 = Inr (add_signals rows s20 s50 s200)"
  using assms
  by (simp add: calculate_triple_sma_enhanced_def Let_def try_rolling_mean_def)

lemma optimized_eval:
  assumes "data \<noteq> []"
    and "rolling_mean p20 (map bar_close data) = Inr s20"
    and "rolling_mean p50 (map bar_close data) = Inr s50"
    and "rolling_mean p200 (map bar_close data) = Inr s200"
  shows "calculate_triple_sma_optimized data p20 p50 p200 = Inr (add_signals data s20 s50 s200)"
  using assms
  by (simp add: calculate_triple_sma_optimized_def)

text \<open>Both calculators in one statement: the rows worked on are named \<open>rows\<close>.\<close>

lemma returned_frame:
  assumes "calculate_triple_sma_enhanced data p20 p50 p200 = Inr df
           \<or> calculate_triple_sma_optimized data p20 p50 p200 = Inr df"
  shows "\<exists>rows s20 s50 s200.
           rolling_mean p20 (map bar_close rows) = Inr s20 \<and>
           rolling_mean p50 (map bar_close rows) = Inr s50 \<and>
           rolling_mean p200 (map bar_close rows) = Inr s200 \<and>
           df = add_signals rows s20 s50 s200"
  using assms enhanced_Inr optimized_Inr by metis

lemma returned_frame_lengths:
  assumes "rolling_mean p20 (map bar_close rows) = Inr s20"
    and "rolling_mean p50 (map bar_close rows) = Inr s50"
    and "rolling_mean p200 (map bar_close rows) = Inr s200"
    and "df = add_signals rows s20 s50 s200"
  shows "length (date df) = length rows" "length (close df) = length rows"
    "length (sma20 df) = length rows" "length (sma50 df) = length rows"
    "length (sma200 df) = length rows" "length (signal df) = length rows"
    "length (returns df) = length rows" "length (strategy_returns df) = length rows"
  using assms
  by (simp_all add: add_signals_simps length_signal_col length_pct_change length_shift1
      length_rolling_mean)

section \<open>Evaluation of the examples\<close>

lemma upt_5: "[0..<5] = [0, 1, 2, 3, 4]"
  by (simp add: upt_rec)

lemma rising_valid: "remove_invalid rising = rising"
  by (simp add: rising_def remove_invalid_def positive_prices_def high_above_low_def
      close_in_range_def bar_open_def bar_high_def bar_low_def bar_close_def)

lemma rising_sorted: "sort_index rising = rising"
  by (simp add: rising_def sort_index_def bar_date_def)

lemma rising_close: "map bar_close rising = [1, 2, 3, 4, 5]"
  by (simp add: rising_def bar_close_def)

lemma rising_length: "length rising = 5"
  by (simp add: rising_def)

lemma rising_sma20:
  "rolling_mean 2 [1, 2, 3, 4, 5] = Inr [None, Some (3 / 2), Some (5 / 2), Some (7 / 2), Some (9 / 2)]"
  by (simp add: rolling_mean_def window_mean_def upt_5)

lemma rising_sma50: "rolling_mean 3 [1, 2, 3, 4, 5] = Inr [None, None, Some 2, Some 3, Some 4]"
  by (simp add: rolling_mean_def window_mean_def upt_5)

lemma rising_sma200:
  "rolling_mean 4 [1, 2, 3, 4, 5] = Inr [None, None, None, Some (5 / 2), Some (7 / 2)]"
  by (simp add: rolling_mean_def window_mean_def upt_5)

lemma rising_signal: "signal rising_frame = [0, 0, 0, 1, 1]"
  by (simp add: rising_frame_def add_signals_simps rising_close signal_col_def uptrend_def
      downtrend_def series_and_def series_gt_def series_lt_def loc_assign_def)

lemma rising_columns:
  "date rising_frame = [1, 2, 3, 4, 5]"
  "close rising_frame = [1, 2, 3, 4, 5]"
  "sma20 rising_frame = [None, Some (3 / 2), Some (5 / 2), Some (7 / 2), Some (9 / 2)]"
  "sma50 rising_frame = [None, None, Some 2, Some 3, Some 4]"
  "sma200 rising_frame = [None, None, None, Some (5 / 2), Some (7 / 2)]"
  by (simp_all add: rising_frame_def add_signals_simps rising_close)
    (simp add: rising_def bar_date_def)

lemma rising_valid_sma: "valid_sma_data rising_frame = [3, 4]"
  by (simp add: valid_sma_data_def rising_columns upt_5 del: not_None_eq)

lemma rising_enhanced: "calculate_triple_sma_enhanced rising 2 3 4 = Inr rising_frame"
  unfolding rising_frame_def
  by (rule enhanced_eval [where rows = rising])
    (simp_all add: rising_valid rising_sorted rising_close rising_sma20 rising_sma50
      rising_sma200 rising_length rising_valid_sma [unfolded rising_frame_def], simp add: rising_def)

lemma rising_optimized: "calculate_triple_sma_optimized rising 2 3 4 = Inr rising_frame"
  unfolding rising_frame_def
  by (rule optimized_eval)
    (simp_all add: rising_close rising_sma20 rising_sma50 rising_sma200, simp add: rising_def)

section \<open>The trend signal\<close>

text \<open>
  C1. For every row of the frame returned by either calculator the signal is -1, 0
  or 1. It is 1 exactly when all three averages are defined on the row and
  \<open>close > sma20 > sma50 > sma200\<close>, it is -1 exactly when all three are defined and
  \<open>close < sma20 < sma50 < sma200\<close>, and it is 0 in every other case, in particular
  when one of the averages is undefined.
\<close>

theorem signal_trend_alignment:
  assumes "calculate_triple_sma_enhanced data p20 p50 p200 = Inr df
           \<or> calculate_triple_sma_optimized data p20 p50 p200 = Inr df"
    and "i < length (date df)"
  shows "signal df ! i \<in> {- 1, 0, 1} \<and>
         (signal df ! i = 1 \<longleftrightarrow>
            (\<exists>a b c. sma20 df ! i = Some a \<and> sma50 df ! i = Some b \<and> sma200 df ! i = Some c \<and>
               close df ! i > a \<and> a > b \<and> b > c)) \<and>
         (signal df ! i = - 1 \<longleftrightarrow>
            (\<exists>a b c. sma20 df ! i = Some a \<and> sma50 df ! i = Some b \<and> sma200 df ! i = Some c \<and>
               close df ! i < a \<and> a < b \<and> b < c)) \<and>
         (sma20 df ! i = None \<or> sma50 df ! i = None \<or> sma200 df ! i = None \<longrightarrow>
            signal df ! i = 0)"
proof -
  from returned_frame [OF assms(1)] obtain rows s20 s50 s200 where
    r: "rolling_mean p20 (map bar_close rows) = Inr s20"
       "rolling_mean p50 (map bar_close rows) = Inr s50"
       "rolling_mean p200 (map bar_close rows) = Inr s200"
       "df = add_signals rows s20 s50 s200"
    by blast
  let ?cl = "map bar_close rows"
  have len: "length s20 = length ?cl" "length s50 = length ?cl" "length s200 = length ?cl"
    using r by (simp_all add: length_rolling_mean)
  have i: "i < length ?cl"
    using assms(2) r(4) by (simp add: add_signals_simps)
  have cols: "signal df = signal_col ?cl s20 s50 s200" "close df = ?cl"
    "sma20 df = s20" "sma50 df = s50" "sma200 df = s200"
    using r(4) by (simp_all add: add_signals_simps)
  have sig: "signal df ! i =
     (if lt (Some (?cl ! i)) (s20 ! i) \<and> lt (s20 ! i) (s50 ! i) \<and> lt (s50 ! i) (s200 ! i) then - 1
      else if gt (Some (?cl ! i)) (s20 ! i) \<and> gt (s20 ! i) (s50 ! i) \<and> gt (s50 ! i) (s200 ! i) then 1
      else 0)"
    unfolding cols(1) by (rule nth_signal_col [OF len i])
  show ?thesis
    unfolding sig cols(2-5)
    by (cases "s20 ! i"; cases "s50 ! i"; cases "s200 ! i") auto
qed

theorem signal_trend_alignment_witness:
  "3 < length (date rising_frame) \<and> signal rising_frame ! 3 = 1 \<and>
   (\<exists>a b c. sma20 rising_frame ! 3 = Some a \<and> sma50 rising_frame ! 3 = Some b \<and>
      sma200 rising_frame ! 3 = Some c \<and> close rising_frame ! 3 > a \<and> a > b \<and> b > c)"
proof -
  have h: "3 < length (date rising_frame)"
    by (simp add: rising_columns)
  have s: "signal rising_frame ! 3 = 1"
    by (simp add: rising_signal)
  from signal_trend_alignment [OF disjI1 [OF rising_enhanced] h] s h
  show ?thesis by simp
qed

section \<open>Strategy returns\<close>

lemma nth_strategy_returns:
  assumes "length sig = length rets" and "i < length rets"
  shows "map fillna0 (map2 fmul (shift1 sig) rets) ! i =
         (if i = 0 then Fin 0 else fillna0 (fmul (Some (sig ! (i - 1))) (rets ! i)))"
  using assms by (simp add: length_shift1 nth_shift1)

lemma fmul_fdiv_nonzero:
  "y \<noteq> 0 \<Longrightarrow> fillna0 (fmul (Some s) (fsub1 (fdiv x y))) = Fin (real_of_int s * (x / y - 1))"
  by (simp add: fdiv_def)

lemma set_remove_invalid:
  "set (remove_invalid data) = {b \<in> set data. positive_prices b \<and> high_above_low b \<and> close_in_range b}"
  by (auto simp: remove_invalid_def)

lemma set_sort_index: "set (sort_index df) = set df"
  by (simp add: sort_index_def)

lemma length_sort_index: "length (sort_index df) = length df"
  by (simp add: sort_index_def)

lemma enhanced_close_positive:
  assumes "calculate_triple_sma_enhanced data p20 p50 p200 = Inr df" and "t < length (date df)"
  shows "0 < close df ! t"
proof -
  from enhanced_Inr [OF assms(1)] obtain s20 s50 s200 where
    df: "df = add_signals (sort_index (remove_invalid data)) s20 s50 s200"
    by blast
  let ?rows = "sort_index (remove_invalid data)"
  have t: "t < length ?rows"
    using assms(2) df by (simp add: add_signals_simps)
  then have "?rows ! t \<in> set (remove_invalid data)"
    using set_sort_index nth_mem by blast
  then have "0 < bar_close (?rows ! t)"
    by (simp add: set_remove_invalid positive_prices_def)
  then show ?thesis
    using t df by (simp add: add_signals_simps)
qed

lemma enhanced_nonempty:
  assumes "calculate_triple_sma_enhanced data p20 p50 p200 = Inr df"
  shows "0 < length (date df)"
proof -
  from enhanced_Inr [OF assms] obtain s20 s50 s200 where
    "remove_invalid data \<noteq> []"
    "df = add_signals (sort_index (remove_invalid data)) s20 s50 s200"
    by blast
  then show ?thesis
    by (simp add: add_signals_simps length_sort_index)
qed

lemma optimized_nonempty:
  assumes "calculate_triple_sma_optimized data p20 p50 p200 = Inr df"
  shows "0 < length (date df)"
proof -
  from optimized_Inr [OF assms] obtain s20 s50 s200 where
    "data \<noteq> []" "df = add_signals data s20 s50 s200"
    by blast
  then show ?thesis
    by (simp add: add_signals_simps)
qed

text \<open>
  C2. In the frame returned by either calculator the first row's strategy return is 0,
  and on every later row \<open>t\<close> the return is \<open>close[t] / close[t-1] - 1\<close> and the
  strategy return is the product of the signal of row \<open>t-1\<close> and the return of row
  \<open>t\<close>, with an undefined product replaced by 0. Where the previous close is not
  zero this is the real number \<open>signal[t-1] * (close[t] / close[t-1] - 1)\<close>; in the
  enhanced calculator every close is positive.
\<close>

theorem strategy_return_lag_one:
  assumes "calculate_triple_sma_enhanced data p20 p50 p200 = Inr df
           \<or> calculate_triple_sma_optimized data p20 p50 p200 = Inr df"
  shows "0 < length (date df) \<and> strategy_returns df ! 0 = Fin 0 \<and>
         (\<forall>t. 0 < t \<and> t < length (date df) \<longrightarrow>
            returns df ! t = fsub1 (fdiv (close df ! t) (close df ! (t - 1))) \<and>
            strategy_returns df ! t = fillna0 (fmul (Some (signal df ! (t - 1))) (returns df ! t)) \<and>
            (close df ! (t - 1) \<noteq> 0 \<longrightarrow>
               strategy_returns df ! t =
                 Fin (real_of_int (signal df ! (t - 1)) * (close df ! t / close df ! (t - 1) - 1)))) \<and>
         (calculate_triple_sma_enhanced data p20 p50 p200 = Inr df \<longrightarrow>
            (\<forall>t. t < length (date df) \<longrightarrow> close df ! t > 0))"
proof -
  from returned_frame [OF assms] obtain rows s20 s50 s200 where
    r: "rolling_mean p20 (map bar_close rows) = Inr s20"
       "rolling_mean p50 (map bar_close rows) = Inr s50"
       "rolling_mean p200 (map bar_close rows) = Inr s200"
       "df = add_signals rows s20 s50 s200"
    by blast
  note len = returned_frame_lengths [OF r]
  let ?cl = "map bar_close rows"
  let ?sig = "signal_col ?cl s20 s50 s200"
  have cols: "close df = ?cl" "signal df = ?sig" "returns df = pct_change ?cl"
    "strategy_returns df = map fillna0 (map2 fmul (shift1 ?sig) (pct_change ?cl))"
    using r(4) by (simp_all add: add_signals_simps)
  have siglen: "length ?sig = length (pct_change ?cl)"
    using len(6) cols(2) by (simp add: length_pct_change)
  have nonempty: "0 < length (date df)"
    using assms enhanced_nonempty optimized_nonempty by blast
  have first: "strategy_returns df ! 0 = Fin 0"
    using nonempty len(1) unfolding cols(4)
    by (subst nth_strategy_returns [OF siglen]) (simp_all add: length_pct_change)
  have later: "returns df ! t = fsub1 (fdiv (close df ! t) (close df ! (t - 1))) \<and>
      strategy_returns df ! t = fillna0 (fmul (Some (signal df ! (t - 1))) (returns df ! t)) \<and>
      (close df ! (t - 1) \<noteq> 0 \<longrightarrow>
         strategy_returns df ! t =
           Fin (real_of_int (signal df ! (t - 1)) * (close df ! t / close df ! (t - 1) - 1)))"
    if t: "0 < t" "t < length (date df)" for t
  proof -
    have tl: "t < length ?cl" using t len(1) by simp
    have a: "returns df ! t = fsub1 (fdiv (close df ! t) (close df ! (t - 1)))"
      unfolding cols(3) cols(1) using t(1) nth_pct_change [OF tl] by simp
    have b: "strategy_returns df ! t = fillna0 (fmul (Some (signal df ! (t - 1))) (returns df ! t))"
      unfolding cols(4) cols(2) cols(3) using t(1) tl
      by (subst nth_strategy_returns [OF siglen]) (simp_all add: length_pct_change)
    show ?thesis
      using a b by (simp add: fmul_fdiv_nonzero)
  qed
  have pos: "calculate_triple_sma_enhanced data p20 p50 p200 = Inr df \<longrightarrow>
            (\<forall>t. t < length (date df) \<longrightarrow> close df ! t > 0)"
    using enhanced_close_positive by blast
  show ?thesis
    using nonempty first later pos by blast
qed

theorem strategy_return_lag_one_witness:
  "strategy_returns rising_frame ! 0 = Fin 0 \<and> strategy_returns rising_frame ! 4 = Fin (1 / 4)"
proof -
  have h: "(0::nat) < 4 \<and> 4 < length (date rising_frame)" "close rising_frame ! (4 - 1) \<noteq> 0"
    "signal rising_frame ! (4 - 1) = 1" "close rising_frame ! 4 / close rising_frame ! (4 - 1) - 1 = 1 / 4"
    by (simp_all add: rising_columns rising_signal)
  from strategy_return_lag_one [OF disjI1 [OF rising_enhanced]]
  have "strategy_returns rising_frame ! 0 = Fin 0"
    and "strategy_returns rising_frame ! 4 =
           Fin (real_of_int (signal rising_frame ! (4 - 1)) *
             (close rising_frame ! 4 / close rising_frame ! (4 - 1) - 1))"
    using h(1,2) by blast+
  then show ?thesis
    unfolding h(3) h(4) by simp
qed

section \<open>The insufficient-data check\<close>

lemma optimized_not_InsufficientData:
  "calculate_triple_sma_optimized data p20 p50 p200 \<noteq> Inl InsufficientData"
  by (auto simp: calculate_triple_sma_optimized_def rolling_mean_def split: sum.splits if_splits)

lemma enhanced_InsufficientData_iff:
  "calculate_triple_sma_enhanced data p20 p50 p200 = Inl InsufficientData
   \<longleftrightarrow> int (length data) < p200"
  by (auto simp: calculate_triple_sma_enhanced_def Let_def try_rolling_mean_def
      split: sum.splits if_splits)

lemma single_bar_optimized:
  "calculate_triple_sma_optimized [(1, 1, 1, 1, 1, 100)] 20 50 200 =
     Inr (add_signals [(1, 1, 1, 1, 1, 100)] [None] [None] [None])"
  by (rule optimized_eval) (simp_all add: rolling_mean_def window_mean_def)

text \<open>
  C3, as stated, fails for the optimized calculator: it has no length check, and a
  single bar with the default window sizes gives a frame, not an error.
\<close>

theorem insufficient_data_counterexample:
  "int (length [(1, 1, 1, 1, 1, 100) :: bar]) < 200 \<and>
   calculate_triple_sma_optimized [(1, 1, 1, 1, 1, 100)] 20 50 200 \<noteq> Inl InsufficientData"
  by (simp add: single_bar_optimized)

text \<open>
  C3, amended. The enhanced calculator raises the insufficient-data error exactly when
  the raw input has fewer than \<open>p200\<close> rows; the optimized calculator never raises it.
\<close>

theorem insufficient_data_iff:
  "(calculate_triple_sma_enhanced data p20 p50 p200 = Inl InsufficientData
      \<longleftrightarrow> int (length data) < p200) \<and>
   calculate_triple_sma_optimized data p20 p50 p200 \<noteq> Inl InsufficientData"
  using enhanced_InsufficientData_iff optimized_not_InsufficientData by blast

theorem insufficient_data_iff_witness:
  "calculate_triple_sma_enhanced rising 2 3 6 = Inl InsufficientData \<and>
   calculate_triple_sma_enhanced rising 2 3 4 \<noteq> Inl InsufficientData \<and>
   calculate_triple_sma_optimized rising 2 3 6 \<noteq> Inl InsufficientData"
  using insufficient_data_iff [of rising 2 3 6] insufficient_data_iff [of rising 2 3 4]
  by (simp add: rising_length)

section \<open>Full windows only\<close>

lemma window_sum_nth:
  assumes "0 < w" and "w \<le> i + 1" and "i < length xs"
  shows "sum_list (take w (drop (i + 1 - w) xs)) = (\<Sum>j<w. xs ! (i - j))"
proof -
  let ?k = "i + 1 - w"
  have len: "length (take w (drop ?k xs)) = w"
    using assms by simp
  have "sum_list (take w (drop ?k xs)) = (\<Sum>j = 0..<w. take w (drop ?k xs) ! j)"
    using len sum_list_sum_nth [of "take w (drop ?k xs)"] by simp
  also have "\<dots> = (\<Sum>j<w. xs ! (?k + j))"
    using assms by (intro sum.cong) (auto simp: lessThan_atLeast0)
  also have "\<dots> = (\<Sum>j<w. xs ! (?k + (w - Suc j)))"
    by (rule sum.nat_diff_reindex [symmetric])
  also have "\<dots> = (\<Sum>j<w. xs ! (i - j))"
    using assms by (intro sum.cong) auto
  finally show ?thesis .
qed

lemma window_mean_Some_iff:
  "window_mean w xs i \<noteq> None \<longleftrightarrow> 0 < w \<and> w \<le> i + 1"
  by (simp add: window_mean_def)

lemma window_mean_value:
  assumes "window_mean w xs i = Some v" and "i < length xs"
  shows "v = (\<Sum>j<w. xs ! (i - j)) / real w"
  using assms window_sum_nth [of w i xs]
  by (auto simp: window_mean_def split: if_splits)

lemma rolling_column:
  assumes "rolling_mean p xs = Inr s" and "i < length xs"
  shows "(s ! i \<noteq> None \<longleftrightarrow> 0 < p \<and> p \<le> int i + 1) \<and>
         (\<forall>v. s ! i = Some v \<longrightarrow> v = (\<Sum>j<nat p. xs ! (i - j)) / real_of_int p)"
proof -
  have p: "0 \<le> p" using assms(1) by (rule rolling_mean_Inr)
  have s: "s ! i = window_mean (nat p) xs i"
    using assms by (rule nth_rolling_mean)
  have "(s ! i \<noteq> None \<longleftrightarrow> 0 < p \<and> p \<le> int i + 1)"
    unfolding s window_mean_Some_iff using p by auto
  moreover have "v = (\<Sum>j<nat p. xs ! (i - j)) / real_of_int p" if "s ! i = Some v" for v
    using window_mean_value [OF that [unfolded s] assms(2)] p by simp
  ultimately show ?thesis by blast
qed

text \<open>
  C4. In the frame returned by either calculator, each moving average is defined on a
  row exactly when its window size is positive and the row and the rows before it are
  at least as many as the window; so it is undefined on the first window-1 rows.
  Where it is defined it is the mean of exactly the last window-many closing prices.
\<close>

theorem sma_full_window_only:
  assumes "calculate_triple_sma_enhanced data p20 p50 p200 = Inr df
           \<or> calculate_triple_sma_optimized data p20 p50 p200 = Inr df"
    and "i < length (date df)"
  shows "(sma20 df ! i \<noteq> None \<longleftrightarrow> 0 < p20 \<and> p20 \<le> int i + 1) \<and>
         (sma50 df ! i \<noteq> None \<longleftrightarrow> 0 < p50 \<and> p50 \<le> int i + 1) \<and>
         (sma200 df ! i \<noteq> None \<longleftrightarrow> 0 < p200 \<and> p200 \<le> int i + 1) \<and>
         (\<forall>v. sma20 df ! i = Some v \<longrightarrow>
            v = (\<Sum>j<nat p20. close df ! (i - j)) / real_of_int p20) \<and>
         (\<forall>v. sma50 df ! i = Some v \<longrightarrow>
            v = (\<Sum>j<nat p50. close df ! (i - j)) / real_of_int p50) \<and>
         (\<forall>v. sma200 df ! i = Some v \<longrightarrow>
            v = (\<Sum>j<nat p200. close df ! (i - j)) / real_of_int p200)"
proof -
  from returned_frame [OF assms(1)] obtain rows s20 s50 s200 where
    r: "rolling_mean p20 (map bar_close rows) = Inr s20"
       "rolling_mean p50 (map bar_close rows) = Inr s50"
       "rolling_mean p200 (map bar_close rows) = Inr s200"
       "df = add_signals rows s20 s50 s200"
    by blast
  have cols: "close df = map bar_close rows" "sma20 df = s20" "sma50 df = s50" "sma200 df = s200"
    using r(4) by (simp_all add: add_signals_simps)
  have i: "i < length (map bar_close rows)"
    using assms(2) r(4) by (simp add: add_signals_simps)
  show ?thesis
    unfolding cols
    using rolling_column [OF r(1) i] rolling_column [OF r(2) i] rolling_column [OF r(3) i]
    by blast
qed

theorem sma_full_window_only_witness:
  "sma200 rising_frame ! 2 = None \<and> sma200 rising_frame ! 3 = Some (5 / 2) \<and>
   (5 / 2 :: real) = (\<Sum>j<nat 4. close rising_frame ! (3 - j)) / real_of_int 4"
proof -
  have h: "2 < length (date rising_frame)" "3 < length (date rising_frame)"
    by (simp_all add: rising_columns)
  have v: "sma200 rising_frame ! 3 = Some (5 / 2)"
    by (simp add: rising_columns)
  from sma_full_window_only [OF disjI1 [OF rising_enhanced] h(1)]
  have a: "sma200 rising_frame ! 2 = None" by simp
  from sma_full_window_only [OF disjI1 [OF rising_enhanced] h(2)] v
  have b: "(5 / 2 :: real) = (\<Sum>j<nat 4. close rising_frame ! (3 - j)) / real_of_int 4"
    by blast
  show ?thesis using a v b by blast
qed

section \<open>Row order\<close>









section \<open>Valid input of sufficient length\<close>

text \<open>The number of rows the validation discards.\<close>

lemma remove_invalid_filter:
  "remove_invalid data =
     filter (\<lambda>b. positive_prices b \<and> high_above_low b \<and> close_in_range b) data"
  by (auto simp: remove_invalid_def intro: filter_cong)

lemma length_remove_invalid:
  "length (remove_invalid data) =
     length data -
       length (filter (\<lambda>b. \<not> (positive_prices b \<and> high_above_low b \<and> close_in_range b)) data)"
  unfolding remove_invalid_filter
  using sum_length_filter_compl
    [of "\<lambda>b. positive_prices b \<and> high_above_low b \<and> close_in_range b" data]
  by simp


lemma enhanced_rows:
  assumes "calculate_triple_sma_enhanced data p20 p50 p200 = Inr df"
  shows "length (date df) = length (remove_invalid data)"
proof -
  from enhanced_Inr [OF assms] obtain s20 s50 s200 where
    "df = add_signals (sort_index (remove_invalid data)) s20 s50 s200"
    by blast
  then show ?thesis
    by (simp add: add_signals_simps length_sort_index)
qed





section \<open>No signal before the longest window fills\<close>

text \<open>
  C9. In the frame returned by either calculator, every row with 0-based index less
  than \<open>p200 - 1\<close> has signal 0.
\<close>

theorem no_signal_before_sma200:
  assumes "calculate_triple_sma_enhanced data p20 p50 p200 = Inr df
           \<or> calculate_triple_sma_optimized data p20 p50 p200 = Inr df"
    and "i < length (date df)" and "int i < p200 - 1"
  shows "signal df ! i = 0"
proof -
  from returned_frame [OF assms(1)] obtain rows s20 s50 s200 where
    r: "rolling_mean p20 (map bar_close rows) = Inr s20"
       "rolling_mean p50 (map bar_close rows) = Inr s50"
       "rolling_mean p200 (map bar_close rows) = Inr s200"
       "df = add_signals rows s20 s50 s200"
    by blast
  let ?cl = "map bar_close rows"
  have len: "length s20 = length ?cl" "length s50 = length ?cl" "length s200 = length ?cl"
    using r by (simp_all add: length_rolling_mean)
  have i: "i < length ?cl"
    using assms(2) r(4) by (simp add: add_signals_simps)
  have "s200 ! i = window_mean (nat p200) ?cl i"
    using r(3) i by (rule nth_rolling_mean)
  then have none: "s200 ! i = None"
    using assms(3) by (simp add: window_mean_def)
  have "signal df ! i = signal_col ?cl s20 s50 s200 ! i"
    using r(4) by (simp add: add_signals_simps)
  also have "\<dots> = 0"
    unfolding nth_signal_col [OF len i] none by (simp add: gt_iff lt_iff)
  finally show ?thesis .
qed

theorem no_signal_before_sma200_witness:
  "2 < length (date rising_frame) \<and> int 2 < 4 - 1 \<and> signal rising_frame ! 2 = 0"
proof -
  have h: "2 < length (date rising_frame)" "int 2 < 4 - 1"
    by (simp_all add: rising_columns)
  from no_signal_before_sma200 [OF disjI1 [OF rising_enhanced] h] h
  show ?thesis by simp
qed

section \<open>The length check and the validation\<close>

lemma rolling_mean_short:
  assumes "int (length xs) < p"
  shows "rolling_mean p xs = Inr (replicate (length xs) None)"
proof -
  have "window_mean (nat p) xs i = None" if "i < length xs" for i
    using that assms by (simp add: window_mean_def)
  then have "map (window_mean (nat p) xs) [0..<length xs] = map (\<lambda>i. None) [0..<length xs]"
    by (intro map_cong) simp_all
  then have "map (window_mean (nat p) xs) [0..<length xs] = replicate (length xs) None"
    by (simp add: map_replicate_const)
  then show ?thesis
    using assms by (simp add: rolling_mean_def)
qed

lemma rising_with_invalid_valid: "remove_invalid rising_with_invalid = rising"
  by (simp add: rising_with_invalid_def rising_def remove_invalid_def positive_prices_def
      high_above_low_def close_in_range_def bar_open_def bar_high_def bar_low_def bar_close_def)

lemma rising_with_invalid_length: "length rising_with_invalid = 6"
  by (simp add: rising_with_invalid_def rising_def)

lemma rising_with_invalid_enhanced:
  "calculate_triple_sma_enhanced rising_with_invalid 2 3 6 = Inl IndexError"
proof -
  have s200: "rolling_mean 6 [1, 2, 3, 4, 5] = Inr [None, None, None, None, None]"
    by (simp add: rolling_mean_def window_mean_def upt_5)
  have v: "valid_sma_data (add_signals rising
      [None, Some (3 / 2), Some (5 / 2), Some (7 / 2), Some (9 / 2)]
      [None, None, Some 2, Some 3, Some 4] [None, None, None, None, None]) = []"
    by (simp add: valid_sma_data_def add_signals_simps rising_close upt_5 del: not_None_eq)
  have ne: "rising \<noteq> []"
    by (simp add: rising_def)
  show ?thesis
    using ne v
    by (simp add: calculate_triple_sma_enhanced_def Let_def rising_with_invalid_valid
        rising_with_invalid_length rising_sorted rising_close try_rolling_mean_def
        rising_sma20 rising_sma50 s200)
qed

text \<open>
  On every input that passes the length check with fewer than \<open>p200\<close> valid rows
  the enhanced calculator raises an error other than the insufficient-data error.
\<close>

lemma enhanced_short_after_filter_raises:
  assumes "p200 \<le> int (length data)" and "int (length (remove_invalid data)) < p200"
  shows "\<exists>e. calculate_triple_sma_enhanced data p20 p50 p200 = Inl e \<and> e \<noteq> InsufficientData"
proof (cases "calculate_triple_sma_enhanced data p20 p50 p200")
  case (Inl e)
  then show ?thesis
    using assms(1) enhanced_InsufficientData_iff [of data p20 p50 p200] by auto
next
  case (Inr df)
  let ?rows = "sort_index (remove_invalid data)"
  from enhanced_Inr [OF Inr] obtain s20 s50 s200 where
    r: "remove_invalid data \<noteq> []"
       "rolling_mean p200 (map bar_close ?rows) = Inr s200"
       "df = add_signals ?rows s20 s50 s200"
       "valid_sma_data df \<noteq> []"
    by blast
  have "s200 = replicate (length ?rows) None"
    using rolling_mean_short [of "map bar_close ?rows" p200] assms(2) r(2)
    by (simp add: length_sort_index)
  then have "valid_sma_data df = []"
    using r(3) by (simp add: valid_sma_data_def add_signals_simps)
  then show ?thesis
    using r(4) by simp
qed

text \<open>
  C10, as stated, speaks of the sma200 values in the result. On six rows of which five
  are valid, with \<open>p200 = 6\<close>, the length check passes, but no frame is returned:
  no row has all three averages and reading the first valid row raises
  \<^verbatim>\<open>IndexError\<close>.
\<close>

theorem raw_length_check_counterexample:
  "6 \<le> int (length rising_with_invalid) \<and>
   int (length (remove_invalid rising_with_invalid)) < 6 \<and>
   calculate_triple_sma_enhanced rising_with_invalid 2 3 6 = Inl IndexError"
  by (simp add: rising_with_invalid_enhanced rising_with_invalid_length rising_with_invalid_valid
      rising_length)

text \<open>
  C10, amended. In the enhanced calculator the insufficient-data check compares the raw
  input length with \<open>p200\<close> before the invalid rows are dropped: for every input with
  at least \<open>p200\<close> rows of which fewer than \<open>p200\<close> pass the validation, the
  insufficient-data error is not raised, and every sma200 value computed over the
  remaining rows is undefined.
\<close>

theorem raw_length_check:
  assumes "p200 \<le> int (length data)" and "int (length (remove_invalid data)) < p200"
  shows "calculate_triple_sma_enhanced data p20 p50 p200 \<noteq> Inl InsufficientData \<and>
         rolling_mean p200 (map bar_close (sort_index (remove_invalid data))) =
           Inr (replicate (length (remove_invalid data)) None)"
proof -
  have "calculate_triple_sma_enhanced data p20 p50 p200 \<noteq> Inl InsufficientData"
    using assms(1) by (simp add: enhanced_InsufficientData_iff)
  moreover have "rolling_mean p200 (map bar_close (sort_index (remove_invalid data))) =
           Inr (replicate (length (remove_invalid data)) None)"
    using rolling_mean_short [of "map bar_close (sort_index (remove_invalid data))" p200] assms(2)
    by (simp add: length_sort_index)
  ultimately show ?thesis by blast
qed

theorem raw_length_check_witness:
  "calculate_triple_sma_enhanced rising_with_invalid 2 3 6 \<noteq> Inl InsufficientData \<and>
   rolling_mean 6 (map bar_close (sort_index (remove_invalid rising_with_invalid))) =
     Inr (replicate 5 None)"
proof -
  have h: "6 \<le> int (length rising_with_invalid)"
    "int (length (remove_invalid rising_with_invalid)) < 6"
    by (simp_all add: rising_with_invalid_length rising_with_invalid_valid rising_length)
  from raw_length_check [OF h, of 2 3] show ?thesis
    by (simp add: rising_with_invalid_valid rising_length)
qed

section \<open>Memoization does not change results\<close>









section \<open>The connection history\<close>

lemma handle_exn_appends:
  "\<exists>entry. snd (handle_exn connection_history env h p timeout e) = connection_history @ [entry] \<and>
     timestamp entry = now env \<and> host entry = h \<and> port entry = p \<and>
     status entry = (case e of Gaierror s \<Rightarrow> ''dns_error'' | SocketTimeout \<Rightarrow> ''timeout''
                     | OtherException s \<Rightarrow> ''error'')"
  by (cases e) (simp_all add: handle_exn_def Let_def)

lemma handle_exn_result:
  "fst (handle_exn connection_history env h p timeout e) =
     (False, case e of
        Gaierror s \<Rightarrow> ''DNS resolution failed: '' @ s
      | SocketTimeout \<Rightarrow> ''Connection timeout after '' @ str_nat timeout @ ''s''
      | OtherException s \<Rightarrow> ''Connection failed: '' @ s)"
  by (cases e) (simp_all add: handle_exn_def Let_def)

text \<open>
  C8. Every call of the reachability test returns a pair and leaves the connection
  history extended by exactly one entry, which records the host, the port and the
  time of the call. The call reports success exactly when connecting and closing
  raised nothing. When connecting fails, the call returns \<open>False\<close> with the message
  of the failure kind: name resolution, timeout, or any other fault.
\<close>

theorem reachability_logs_every_attempt:
  "(\<exists>entry.
      snd (test_network_connection fmt3 connection_history env h p timeout) =
        connection_history @ [entry] \<and>
      timestamp entry = now env \<and> host entry = h \<and> port entry = p) \<and>
   length (snd (test_network_connection fmt3 connection_history env h p timeout)) =
     length connection_history + 1 \<and>
   (fst (fst (test_network_connection fmt3 connection_history env h p timeout)) \<longleftrightarrow>
      create_connection env = None \<and> sock_close env = None) \<and>
   (\<forall>e. create_connection env = Some e \<longrightarrow>
      fst (test_network_connection fmt3 connection_history env h p timeout) =
        (False, case e of
           Gaierror s \<Rightarrow> ''DNS resolution failed: '' @ s
         | SocketTimeout \<Rightarrow> ''Connection timeout after '' @ str_nat timeout @ ''s''
         | OtherException s \<Rightarrow> ''Connection failed: '' @ s))"
proof -
  let ?r = "test_network_connection fmt3 connection_history env h p timeout"
  have one: "\<exists>entry. snd ?r = connection_history @ [entry] \<and>
      timestamp entry = now env \<and> host entry = h \<and> port entry = p"
  proof (cases "create_connection env")
    case (Some e)
    then show ?thesis
      using handle_exn_appends [of connection_history env h p timeout e]
      by (auto simp: test_network_connection_def)
  next
    case None
    show ?thesis
    proof (cases "sock_close env")
      case (Some e)
      then show ?thesis
        using None handle_exn_appends [of connection_history env h p timeout e]
        by (auto simp: test_network_connection_def)
    next
      case n: None
      then show ?thesis
        using None by (simp add: test_network_connection_def)
    qed
  qed
  then have len: "length (snd ?r) = length connection_history + 1"
    by auto
  have ok: "fst (fst ?r) \<longleftrightarrow> create_connection env = None \<and> sock_close env = None"
    by (simp add: test_network_connection_def handle_exn_result split: option.splits)
  have fail: "\<forall>e. create_connection env = Some e \<longrightarrow>
      fst ?r = (False, case e of
           Gaierror s \<Rightarrow> ''DNS resolution failed: '' @ s
         | SocketTimeout \<Rightarrow> ''Connection timeout after '' @ str_nat timeout @ ''s''
         | OtherException s \<Rightarrow> ''Connection failed: '' @ s)"
    by (simp add: test_network_connection_def handle_exn_result)
  show ?thesis
    using one len ok fail by blast
qed

lemma str_nat_5: "str_nat 5 = ''5''"
  by (simp add: str_nat.simps digit_char_def)

theorem reachability_logs_every_attempt_witness:
  "test_network_connection (\<lambda>t. ''0.000'') []
     \<lparr> create_connection = Some SocketTimeout, sock_close = None, connection_time = 0, now = 7 \<rparr>
     ''unreachable.example'' 1 5 =
   ((False, ''Connection timeout after 5s''),
    [\<lparr> timestamp = 7, host = ''unreachable.example'', port = 1, status = ''timeout'',
       latency = None, error_text = Some ''Connection timeout after 5s'' \<rparr>])"
proof -
  let ?env = "\<lparr> create_connection = Some SocketTimeout, sock_close = None,
                 connection_time = 0, now = 7 \<rparr>"
  let ?r = "test_network_connection (\<lambda>t. ''0.000'') [] ?env ''unreachable.example'' 1 5"
  have c: "create_connection ?env = Some SocketTimeout" by simp
  from reachability_logs_every_attempt [of "\<lambda>t. ''0.000''" "[]" ?env "''unreachable.example''" 1 5] c
  have "fst ?r = (False, ''Connection timeout after '' @ str_nat 5 @ ''s'')"
    by simp
  then have f: "fst ?r = (False, ''Connection timeout after 5s'')"
    by (simp add: str_nat_5)
  have s: "snd ?r = [\<lparr> timestamp = 7, host = ''unreachable.example'', port = 1,
       status = ''timeout'', latency = None, error_text = Some ''Connection timeout after 5s'' \<rparr>]"
    by (simp add: test_network_connection_def handle_exn_def str_nat_5 Let_def)
  show ?thesis
    using f s by (simp add: prod_eq_iff)
qed

end
